theory Spec2Isabelle
  imports Main "HOL-Library.Word"
begin

section \<open>Strings\<close>

text \<open>
  A JavaScript string is a sequence of UTF-16 code units; \<open>length\<close>, \<open>slice\<close>,
  \<open>startsWith\<close> and the regular expressions without the \<open>u\<close> flag work on code units.
  \<open>lit\<close> gives the code units of a string literal of the source, all of them ASCII.
  Property names and request paths, which only the code writes, stay plain \<open>string\<close>s.
\<close>

type_synonym jsstring = "16 word list"

primrec lit :: "string \<Rightarrow> jsstring" where
  "lit [] = []"
| "lit (c # cs) = of_char c # lit cs"

section \<open>The registration draft (CenterSignupPage.tsx, interface CenterFormData)\<close>

text \<open>
  A \<open>File\<close> is an opaque browser object; only its identity matters, so it is a handle.
  The capacity is written by one input only, whose handler stores
  \<open>parseInt(e.target.value) || 0\<close>: a whole number, and 0 where \<open>parseInt\<close> gives
  \<open>NaN\<close>. It is an \<open>int\<close> here; numbers beyond the range of a double are left out.
\<close>

datatype File = File nat

record Address =
  street :: jsstring
  city :: jsstring
  state :: jsstring
  pincode :: jsstring

record WorkingHours =
  start :: jsstring
  "end" :: jsstring

record OperationalDetails =
  capacity :: int
  workingHours :: WorkingHours
  workingDays :: "jsstring list"

record CenterFormData =
  centerName :: jsstring
  contactPersonName :: jsstring
  email :: jsstring
  phoneNumber :: jsstring
  password :: jsstring
  confirmPassword :: jsstring
  address :: Address
  region :: jsstring
  operationalDetails :: OperationalDetails
  services :: "jsstring list"
  documents :: "File list"

text \<open>The initial value of the \<open>formData\<close> state (the argument of \<open>useState\<close>).\<close>

definition initialFormData :: CenterFormData where
  "initialFormData =
     \<lparr> centerName = [], contactPersonName = [], email = [], phoneNumber = [],
       password = [], confirmPassword = [],
       address = \<lparr> street = [], city = [], state = [], pincode = [] \<rparr>,
       region = [],
       operationalDetails =
         \<lparr> capacity = 100,
           workingHours = \<lparr> start = lit ''09:00'', end = lit ''18:00'' \<rparr>,
           workingDays = [lit ''Monday'', lit ''Tuesday'', lit ''Wednesday'', lit ''Thursday'',
                          lit ''Friday''] \<rparr>,
       services = [lit ''Storage'', lit ''Distribution''],
       documents = [] \<rparr>"

section \<open>Property access by a computed key\<close>

text \<open>
  \<open>prev[field as keyof CenterFormData]\<close> reads the own property whose name is the whole
  string \<open>field\<close>; the cast is erased at run time, and a dot inside the key is an ordinary
  character of the name. A draft has the eleven properties of its interface, so every
  other key reads \<open>undefined\<close>.
\<close>

datatype jsval =
    JUndefined
  | JString jsstring
  | JStringArray "jsstring list"
  | JFileArray "File list"
  | JAddress Address
  | JOperationalDetails OperationalDetails

definition getProp :: "CenterFormData \<Rightarrow> string \<Rightarrow> jsval" where
  "getProp d field =
     (if field = ''centerName'' then JString (centerName d)
      else if field = ''contactPersonName'' then JString (contactPersonName d)
      else if field = ''email'' then JString (email d)
      else if field = ''phoneNumber'' then JString (phoneNumber d)
      else if field = ''password'' then JString (password d)
      else if field = ''confirmPassword'' then JString (confirmPassword d)
      else if field = ''address'' then JAddress (address d)
      else if field = ''region'' then JString (region d)
      else if field = ''operationalDetails'' then JOperationalDetails (operationalDetails d)
      else if field = ''services'' then JStringArray (services d)
      else if field = ''documents'' then JFileArray (documents d)
      else JUndefined)"

text \<open>
  An updater either returns the next draft or fails. \<open>TypeError\<close> is the exception the
  JavaScript raises (spreading a value that is not iterable, calling \<open>filter\<close> on a value
  that has none); the state is then not replaced. \<open>NotCenterFormData\<close> marks a result
  that is an object outside the interface (a property holding a value of another type, or
  a property the interface does not have), which the record cannot hold.
\<close>

datatype update_error = TypeError | NotCenterFormData

text \<open>\<open>{ ...prev, [field]: v }\<close>: a copy of \<open>prev\<close> with the property \<open>field\<close> set to \<open>v\<close>.\<close>

fun assignProp :: "CenterFormData \<Rightarrow> string \<Rightarrow> jsval \<Rightarrow> update_error + CenterFormData" where
  "assignProp d field (JString s) =
     (if field = ''centerName'' then Inr (d\<lparr>centerName := s\<rparr>)
      else if field = ''contactPersonName'' then Inr (d\<lparr>contactPersonName := s\<rparr>)
      else if field = ''email'' then Inr (d\<lparr>email := s\<rparr>)
      else if field = ''phoneNumber'' then Inr (d\<lparr>phoneNumber := s\<rparr>)
      else if field = ''password'' then Inr (d\<lparr>password := s\<rparr>)
      else if field = ''confirmPassword'' then Inr (d\<lparr>confirmPassword := s\<rparr>)
      else if field = ''region'' then Inr (d\<lparr>region := s\<rparr>)
      else Inl NotCenterFormData)"
| "assignProp d field (JStringArray xs) =
     (if field = ''services'' then Inr (d\<lparr>services := xs\<rparr>)
      else if field = ''documents'' \<and> xs = [] then Inr (d\<lparr>documents := []\<rparr>)
      else Inl NotCenterFormData)"
| "assignProp d field (JFileArray fs) =
     (if field = ''documents'' then Inr (d\<lparr>documents := fs\<rparr>)
      else if field = ''services'' \<and> fs = [] then Inr (d\<lparr>services := []\<rparr>)
      else Inl NotCenterFormData)"
| "assignProp d field (JAddress a) =
     (if field = ''address'' then Inr (d\<lparr>address := a\<rparr>) else Inl NotCenterFormData)"
| "assignProp d field (JOperationalDetails od) =
     (if field = ''operationalDetails'' then Inr (d\<lparr>operationalDetails := od\<rparr>)
      else Inl NotCenterFormData)"
| "assignProp d field JUndefined = Inl NotCenterFormData"

section \<open>handleInputChange and the phone input\<close>

text \<open>
  \<open>handleInputChange(field, value)\<close> is the updater \<open>{ ...prev, [field]: value }\<close>. Every
  call of the page passes the text of an input or of a select, so \<open>value\<close> is a string.
\<close>

definition handleInputChange ::
    "CenterFormData \<Rightarrow> string \<Rightarrow> jsstring \<Rightarrow> update_error + CenterFormData" where
  "handleInputChange prev field val = assignProp prev field (JString val)"

text \<open>The class \<open>\d\<close> of a pattern without flags: the ASCII digits.\<close>

definition isDigit :: "16 word \<Rightarrow> bool" where
  "isDigit c = (0x30 \<le> c \<and> c \<le> 0x39)"

text \<open>
  The \<open>onChange\<close> of the phone input, the only writer of \<open>phoneNumber\<close>:
  \<^verbatim>\<open>const value = e.target.value.replace(/\D/g, "").slice(0, 10);
  handleInputChange("phoneNumber", value);\<close>
  \<open>targetValue\<close> is the text in the input after the user's edit.
\<close>

definition phoneNumber_onChange ::
    "CenterFormData \<Rightarrow> jsstring \<Rightarrow> update_error + CenterFormData" where
  "phoneNumber_onChange prev targetValue =
     handleInputChange prev ''phoneNumber'' (take 10 (filter isDigit targetValue))"

section \<open>handleArrayInputChange\<close>

text \<open>
  The updater passed to \<open>setFormData\<close>:
  \<^verbatim>\<open>[field]: checked ? [...(prev[field] as string[]), value]
                    : (prev[field] as string[]).filter((item) => item !== value)\<close>
  \<^item> \<open>checked\<close>: the array spread iterates \<open>prev[field]\<close>. A string array gives the array
    with \<open>value\<close> appended. The file array and a string (iterated by character) give an
    array that is not of the property's type. \<open>undefined\<close> and a plain object are not
    iterable.
  \<^item> not \<open>checked\<close>: \<open>filter\<close> exists on arrays only. A \<open>File\<close> is never \<open>===\<close> a string,
    so the file array is kept whole.
\<close>

definition handleArrayInputChange ::
    "CenterFormData \<Rightarrow> string \<Rightarrow> jsstring \<Rightarrow> bool \<Rightarrow> update_error + CenterFormData" where
  "handleArrayInputChange prev field val checked =
     (if checked then
        (case getProp prev field of
           JStringArray xs \<Rightarrow> assignProp prev field (JStringArray (xs @ [val]))
         | JFileArray fs \<Rightarrow> Inl NotCenterFormData
         | JString s \<Rightarrow> Inl NotCenterFormData
         | JAddress a \<Rightarrow> Inl TypeError
         | JOperationalDetails od \<Rightarrow> Inl TypeError
         | JUndefined \<Rightarrow> Inl TypeError)
      else
        (case getProp prev field of
           JStringArray xs \<Rightarrow> assignProp prev field (JStringArray (filter (\<lambda>item. item \<noteq> val) xs))
         | JFileArray fs \<Rightarrow> assignProp prev field (JFileArray fs)
         | JString s \<Rightarrow> Inl TypeError
         | JAddress a \<Rightarrow> Inl TypeError
         | JOperationalDetails od \<Rightarrow> Inl TypeError
         | JUndefined \<Rightarrow> Inl TypeError))"

text \<open>\<open>handleDocumentUpload\<close> with the picked files, and \<open>removeDocument\<close>.\<close>

definition handleDocumentUpload :: "CenterFormData \<Rightarrow> File list \<Rightarrow> CenterFormData" where
  "handleDocumentUpload prev files = prev\<lparr>documents := documents prev @ files\<rparr>"

definition removeDocument :: "CenterFormData \<Rightarrow> nat \<Rightarrow> CenterFormData" where
  "removeDocument prev index =
     prev\<lparr>documents := map snd (filter (\<lambda>(i, f). i \<noteq> index) (enumerate 0 (documents prev)))\<rparr>"

section \<open>validateForm\<close>

text \<open>
  \<open>/^(?=.*[a-z])(?=.*[A-Z])(?=.*\d)/.test(s)\<close>. The pattern has no flags: \<open>^\<close> is the start
  of the input, and \<open>.\<close> matches any code unit except the line terminators LF, CR, U+2028
  and U+2029. Each lookahead succeeds iff some character of its class is reached from
  the start through characters that are not line terminators, that is, iff the class
  occurs before the first line terminator of \<open>s\<close>.
\<close>

definition isLineTerminator :: "16 word \<Rightarrow> bool" where
  "isLineTerminator c = (c = 0x0A \<or> c = 0x0D \<or> c = 0x2028 \<or> c = 0x2029)"

definition isLower :: "16 word \<Rightarrow> bool" where
  "isLower c = (0x61 \<le> c \<and> c \<le> 0x7A)"

definition isUpper :: "16 word \<Rightarrow> bool" where
  "isUpper c = (0x41 \<le> c \<and> c \<le> 0x5A)"

definition dotStar :: "jsstring \<Rightarrow> jsstring" where
  "dotStar s = takeWhile (\<lambda>c. \<not> isLineTerminator c) s"

definition passwordRegex_test :: "jsstring \<Rightarrow> bool" where
  "passwordRegex_test s =
     (list_ex isLower (dotStar s) \<and> list_ex isUpper (dotStar s) \<and> list_ex isDigit (dotStar s))"

definition validateForm :: "CenterFormData \<Rightarrow> jsstring option" where
  "validateForm formData =
     (if password formData \<noteq> confirmPassword formData then
        Some (lit ''Passwords do not match'')
      else if length (password formData) < 6 then
        Some (lit ''Password must be at least 6 characters long'')
      else if \<not> passwordRegex_test (password formData) then
        Some (lit ''Password must contain at least one uppercase letter, one lowercase letter, and one number'')
      else if capacity (operationalDetails formData) < 1 then
        Some (lit ''Capacity must be at least 1'')
      else if length (workingDays (operationalDetails formData)) = 0 then
        Some (lit ''Please select at least one working day'')
      else if length (services formData) = 0 then
        Some (lit ''Please select at least one service'')
      else None)"

section \<open>handleSubmit\<close>

text \<open>
  An object literal sent as a request body is the list of its properties, in the order
  of the literal.
\<close>

type_synonym jsobject = "(string \<times> jsval) list"

text \<open>
  What the handler does to the outside: \<open>alert(msg)\<close>,
  \<open>axiosInstance.post(url, body)\<close> and the callback \<open>onSignupSuccess()\<close> (taken not to
  throw). The \<open>console\<close> calls are left out.
\<close>

datatype effect = Alert jsstring | Post string jsobject | OnSignupSuccess

text \<open>
  The body of a response (\<open>response.data\<close>, \<open>error.response.data\<close>). \<open>success\<close> is the
  truthiness of the property; an absent \<open>message\<close> or \<open>errors\<close> is \<open>None\<close>.
\<close>

datatype FieldError = FieldError (err_field: jsstring) (err_message: jsstring)

record ResponseData =
  success :: bool
  message :: "jsstring option"
  errors :: "FieldError list option"

text \<open>
  The awaited promise either resolves with a response or rejects with an error; the error
  carries a response body (\<open>error.response?.data\<close>) or none (network failure, timeout).
\<close>

datatype transport_outcome = Resolved ResponseData | Rejected "ResponseData option"

text \<open>\<open>s.startsWith(p)\<close>\<close>

definition startsWith :: "jsstring \<Rightarrow> jsstring \<Rightarrow> bool" where
  "startsWith s p = (take (length p) s = p)"

definition formattedPhone :: "CenterFormData \<Rightarrow> jsstring" where
  "formattedPhone formData =
     (if startsWith (phoneNumber formData) (lit ''+977'') then phoneNumber formData
      else lit ''+977'' @ phoneNumber formData)"

definition apiData :: "CenterFormData \<Rightarrow> jsobject" where
  "apiData formData =
     [(''name'', JString (contactPersonName formData)),
      (''email'', JString (email formData)),
      (''password'', JString (password formData)),
      (''phone'', JString (formattedPhone formData)),
      (''role'', JString (lit ''CENTER'')),
      (''centerName'', JString (centerName formData)),
      (''address'', JAddress (address formData)),
      (''region'', JString (region formData)),
      (''operationalDetails'', JOperationalDetails (operationalDetails formData)),
      (''services'', JStringArray (services formData))]"

text \<open>\<open>x || fallback\<close> on an optional string: an absent and an empty string are falsy.\<close>

fun orElse :: "jsstring option \<Rightarrow> jsstring \<Rightarrow> jsstring" where
  "orElse None fallback = fallback"
| "orElse (Some m) fallback = (if m = [] then fallback else m)"

text \<open>\<open>xs.join(sep)\<close>\<close>

fun join :: "jsstring \<Rightarrow> jsstring list \<Rightarrow> jsstring" where
  "join sep [] = []"
| "join sep [x] = x"
| "join sep (x # y # ys) = x @ sep @ join sep (y # ys)"

text \<open>The component state: the draft and the \<open>isLoading\<close> flag.\<close>

record SignupState =
  formData :: CenterFormData
  isLoading :: bool

text \<open>
  The handler up to its \<open>await\<close>. The third component tells whether it is suspended on
  the request (\<open>True\<close>) or has returned.
\<close>

definition handleSubmit_start :: "SignupState \<Rightarrow> SignupState \<times> effect list \<times> bool" where
  "handleSubmit_start s =
     (case validateForm (formData s) of
        Some validationError \<Rightarrow>
          (s\<lparr>isLoading := True\<rparr>\<lparr>isLoading := False\<rparr>, [Alert validationError], False)
      | None \<Rightarrow>
          (s\<lparr>isLoading := True\<rparr>, [Post ''/api/auth/register'' (apiData (formData s))], True))"

text \<open>The handler from the settling of the request on: the rest of \<open>try\<close>, or \<open>catch\<close>.\<close>

definition handleSubmit_settle :: "SignupState \<Rightarrow> transport_outcome \<Rightarrow> SignupState \<times> effect list" where
  "handleSubmit_settle s outcome =
     (case outcome of
        Resolved r \<Rightarrow>
          (s\<lparr>isLoading := False\<rparr>,
           if success r then
             [Alert (lit ''Application submitted successfully! Your application has been sent to the admin for verification.''),
              OnSignupSuccess]
           else
             [Alert (orElse (message r) (lit ''Failed to submit application. Please try again.''))])
      | Rejected body \<Rightarrow>
          (s\<lparr>isLoading := False\<rparr>,
           (case (case body of None \<Rightarrow> None | Some r \<Rightarrow> errors r) of
              Some (e # es) \<Rightarrow>
                [Alert (lit ''Validation errors:'' @ [0x0A] @
                        join [0x0A] (map (\<lambda>err. err_field err @ lit '': '' @ err_message err) (e # es)))]
            | _ \<Rightarrow>
                [Alert (orElse (case body of None \<Rightarrow> None | Some r \<Rightarrow> message r)
                          (lit ''An error occurred while submitting your application. Please try again.''))])))"

text \<open>
  One whole submission, when nothing else happens before the request settles:
  \<open>axiosPost\<close> stands for the transport and the backend.
\<close>

definition handleSubmit ::
    "(string \<Rightarrow> jsobject \<Rightarrow> transport_outcome) \<Rightarrow> SignupState \<Rightarrow> SignupState \<times> effect list" where
  "handleSubmit axiosPost s =
     (case handleSubmit_start s of
        (s1, effs, False) \<Rightarrow> (s1, effs)
      | (s1, effs, True) \<Rightarrow>
          (case handleSubmit_settle s1 (axiosPost ''/api/auth/register'' (apiData (formData s))) of
             (s2, effs2) \<Rightarrow> (s2, effs @ effs2)))"

text \<open>The network calls among the effects.\<close>

fun isPost :: "effect \<Rightarrow> bool" where
  "isPost (Post url body) = True"
| "isPost _ = False"

definition networkCalls :: "effect list \<Rightarrow> effect list" where
  "networkCalls effs = filter isPost effs"

subsection \<open>The page as a sequence of events\<close>

text \<open>
  Modelled from the spec: the \<open>Button\<close> component (\<open>../ui/Button\<close>), to which the page
  passes \<open>isLoading\<close> on its submit button, is not among the sources. The specification
  makes the state of the controller, when not idle, the lock of the form: a submit
  attempt while a submission is in flight is ignored, not queued. So the submit button
  lets a submit event through to the form exactly when \<open>isLoading\<close> is false.
\<close>

definition Button_submits :: "bool \<Rightarrow> bool" where
  "Button_submits loading = (\<not> loading)"

text \<open>
  The events of a page: an edit replaces the draft by the one the mutator returns, a
  submit attempt reaches \<open>handleSubmit\<close> through the button, and the settling of a request
  resumes the handler that awaits it. \<open>handleSubmit\<close> itself does not read \<open>isLoading\<close>.
  The requests in flight are counted and all effects are recorded.
\<close>

record Page =
  page_state :: SignupState
  inFlight :: nat
  trace :: "effect list"

datatype event = Edit CenterFormData | Submit | Settle transport_outcome

fun step :: "Page \<Rightarrow> event \<Rightarrow> Page" where
  "step p (Edit d) = p\<lparr>page_state := (page_state p)\<lparr>formData := d\<rparr>\<rparr>"
| "step p Submit =
     (if Button_submits (isLoading (page_state p)) then
        (case handleSubmit_start (page_state p) of
           (s1, effs, awaiting) \<Rightarrow>
             \<lparr> page_state = s1,
               inFlight = (if awaiting then inFlight p + 1 else inFlight p),
               trace = trace p @ effs \<rparr>)
      else p)"
| "step p (Settle outcome) =
     (if inFlight p = 0 then p
      else (case handleSubmit_settle (page_state p) outcome of
              (s1, effs) \<Rightarrow>
                \<lparr> page_state = s1, inFlight = inFlight p - 1, trace = trace p @ effs \<rparr>))"

definition newPage :: "CenterFormData \<Rightarrow> Page" where
  "newPage d = \<lparr> page_state = \<lparr> formData = d, isLoading = False \<rparr>, inFlight = 0, trace = [] \<rparr>"

definition run :: "Page \<Rightarrow> event list \<Rightarrow> Page" where
  "run p evs = foldl step p evs"

section \<open>handleLogin (LoginPage.tsx)\<close>

text \<open>
  \<open>toUpperCase\<close> and \<open>toLowerCase\<close> follow the Unicode case tables. On text of ASCII code
  units only, the tables change the letters \<open>a\<close> to \<open>z\<close> (\<open>A\<close> to \<open>Z\<close>) and nothing
  else, one code unit for one. What they give for any other text is not modelled: it is
  the parameter \<open>unicodeUpper\<close> (\<open>unicodeLower\<close>), about which nothing is assumed.
\<close>

definition toUpperCase :: "(jsstring \<Rightarrow> jsstring) \<Rightarrow> jsstring \<Rightarrow> jsstring" where
  "toUpperCase unicodeUpper s =
     (if list_all (\<lambda>c. c < 0x80) s then map (\<lambda>c. if isLower c then c - 0x20 else c) s
      else unicodeUpper s)"

definition toLowerCase :: "(jsstring \<Rightarrow> jsstring) \<Rightarrow> jsstring \<Rightarrow> jsstring" where
  "toLowerCase unicodeLower s =
     (if list_all (\<lambda>c. c < 0x80) s then map (\<lambda>c. if isUpper c then c + 0x20 else c) s
      else unicodeLower s)"

text \<open>The five state variables of the component.\<close>

record LoginState =
  login_email :: jsstring
  login_password :: jsstring
  selectedRole :: jsstring
  login_isLoading :: bool
  error :: jsstring

text \<open>The values of the three role buttons, the only arguments of \<open>setSelectedRole\<close>.\<close>

definition roleOptions :: "jsstring list" where
  "roleOptions = [lit ''admin'', lit ''vendor'', lit ''center'']"

text \<open>
  The type \<open>User\<close> is declared outside these sources; the handler touches its \<open>role\<close>
  only, and \<open>other\<close> stands for the rest of the object.
\<close>

record 'a User =
  role :: jsstring
  other :: 'a

record 'a LoginData =
  user :: "'a User option"
  token :: jsstring

record 'a LoginResponse =
  status :: nat
  login_success :: bool
  login_message :: "jsstring option"
  login_data :: "'a LoginData option"

datatype 'a login_outcome = LoginResolved "'a LoginResponse" | LoginRejected

datatype 'a login_effect = LoginPost string jsobject | OnLogin "'a User option" jsstring

definition handleLogin_start ::
    "(jsstring \<Rightarrow> jsstring) \<Rightarrow> LoginState \<Rightarrow> LoginState \<times> 'a login_effect list \<times> bool" where
  "handleLogin_start unicodeUpper s =
     (if selectedRole s = [] then
        (s\<lparr>error := lit ''Please select your role''\<rparr>, [], False)
      else
        (s\<lparr>login_isLoading := True, error := []\<rparr>,
         [LoginPost ''/api/auth/login''
            [(''email'', JString (login_email s)),
             (''password'', JString (login_password s)),
             (''role'', JString (toUpperCase unicodeUpper (selectedRole s)))]],
         True))"

text \<open>
  After the \<open>await\<close>. Reading \<open>data.data.user\<close> when \<open>data.data\<close> is absent throws, which
  \<open>catch\<close> turns into the generic error; \<open>finally\<close> clears \<open>isLoading\<close> on every path.
\<close>

definition handleLogin_settle ::
    "(jsstring \<Rightarrow> jsstring) \<Rightarrow> LoginState \<Rightarrow> 'a login_outcome \<Rightarrow>
       LoginState \<times> 'a login_effect list" where
  "handleLogin_settle unicodeLower s outcome =
     (case outcome of
        LoginResolved r \<Rightarrow>
          (if status r = 200 \<and> login_success r then
             (case login_data r of
                None \<Rightarrow>
                  (s\<lparr>error := lit ''An error occurred during login. Please try again.'',
                     login_isLoading := False\<rparr>, [])
              | Some d \<Rightarrow>
                  (s\<lparr>login_isLoading := False\<rparr>,
                   [OnLogin
                      (case user d of
                         None \<Rightarrow> None
                       | Some u \<Rightarrow>
                           if role u \<noteq> [] then Some (u\<lparr>role := toLowerCase unicodeLower (role u)\<rparr>)
                           else Some u)
                      (token d)]))
           else
             (s\<lparr>error := orElse (login_message r) (lit ''Login failed. Please check your credentials.''),
                login_isLoading := False\<rparr>, []))
      | LoginRejected \<Rightarrow>
          (s\<lparr>error := lit ''An error occurred during login. Please try again.'',
             login_isLoading := False\<rparr>, []))"

section \<open>The specification's wording, and example values\<close>

text \<open>
  The six rules as the specification words them, the third one as "the password contains
  at least one lowercase letter, one uppercase letter and one digit". This definition is
  compared with \<open>validateForm\<close> below; it is not taken from the code.
\<close>

definition validate_spec :: "CenterFormData \<Rightarrow> jsstring option" where
  "validate_spec d =
     (if password d \<noteq> confirmPassword d then Some (lit ''Passwords do not match'')
      else if \<not> 6 \<le> length (password d) then
        Some (lit ''Password must be at least 6 characters long'')
      else if \<not> (list_ex isLower (password d) \<and> list_ex isUpper (password d) \<and>
                 list_ex isDigit (password d)) then
        Some (lit ''Password must contain at least one uppercase letter, one lowercase letter, and one number'')
      else if \<not> 1 \<le> capacity (operationalDetails d) then Some (lit ''Capacity must be at least 1'')
      else if workingDays (operationalDetails d) = [] then
        Some (lit ''Please select at least one working day'')
      else if services d = [] then Some (lit ''Please select at least one service'')
      else None)"

text \<open>Two calls of \<open>handleArrayInputChange(field, v, true)\<close> in a row.\<close>

definition addTwice :: "CenterFormData \<Rightarrow> string \<Rightarrow> jsstring \<Rightarrow> update_error + CenterFormData" where
  "addTwice d field v =
     (case handleArrayInputChange d field v True of
        Inl e \<Rightarrow> Inl e
      | Inr d1 \<Rightarrow> handleArrayInputChange d1 field v True)"

text \<open>
  Typing a text into the phone input, one character after the other at the end of what
  the input shows (the stored number): every keystroke is one \<open>onChange\<close>.
\<close>

fun typePhone :: "CenterFormData \<Rightarrow> jsstring \<Rightarrow> update_error + CenterFormData" where
  "typePhone d [] = Inr d"
| "typePhone d (c # cs) =
     (case phoneNumber_onChange d (phoneNumber d @ [c]) of
        Inl e \<Rightarrow> Inl e
      | Inr d1 \<Rightarrow> typePhone d1 cs)"

text \<open>Drafts: the initial draft with a password typed in, and variations of it.\<close>

definition validDraft :: CenterFormData where
  "validDraft = initialFormData\<lparr>password := lit ''Abcdef1'', confirmPassword := lit ''Abcdef1''\<rparr>"

definition zeroCapacityDraft :: CenterFormData where
  "zeroCapacityDraft =
     validDraft\<lparr>operationalDetails := (operationalDetails validDraft)\<lparr>capacity := 0\<rparr>\<rparr>"

text \<open>
  The password \<open>Abcdef\<close>, U+2028 (line separator), \<open>1\<close>, and the initial draft with it in
  both password fields.
\<close>

definition separatorPassword :: jsstring where
  "separatorPassword = lit ''Abcdef'' @ [0x2028] @ lit ''1''"

definition separatorDraft :: CenterFormData where
  "separatorDraft =
     initialFormData\<lparr>password := separatorPassword, confirmPassword := separatorPassword\<rparr>"

definition idle :: "CenterFormData \<Rightarrow> SignupState" where
  "idle d = \<lparr> formData = d, isLoading = False \<rparr>"

text \<open>The body \<open>{success: false, errors: [{field: "email", message: "already registered"}]}\<close>.\<close>

definition emailTaken :: ResponseData where
  "emailTaken = \<lparr> success = False, message = None,
                  errors = Some [FieldError (lit ''email'') (lit ''already registered'')] \<rparr>"

text \<open>Login states and a successful login response whose user has the role \<open>"ADMIN"\<close>.\<close>

definition noRole :: LoginState where
  "noRole = \<lparr> login_email = lit ''a@b.np'', login_password = lit ''secret'', selectedRole = [],
              login_isLoading = False, error = [] \<rparr>"

definition adminLogin :: LoginState where
  "adminLogin = noRole\<lparr>selectedRole := lit ''admin''\<rparr>"

definition adminData :: "unit LoginData" where
  "adminData = \<lparr> user = Some \<lparr> role = lit ''ADMIN'', other = () \<rparr>, token = lit ''t0k3n'' \<rparr>"

definition adminResponse :: "unit LoginResponse" where
  "adminResponse = \<lparr> status = 200, login_success = True, login_message = None,
                     login_data = Some adminData \<rparr>"

section \<open>Basic facts\<close>

lemmas char_defs = isLineTerminator_def isLower_def isUpper_def isDigit_def

lemma validateForm_validDraft: "validateForm validDraft = None"
  by (simp add: validateForm_def validDraft_def initialFormData_def passwordRegex_test_def
        dotStar_def char_defs)

lemma validateForm_phoneNumber: "validateForm (d\<lparr>phoneNumber := n\<rparr>) = validateForm d"
  by (simp add: validateForm_def)

lemma services_add:
  "handleArrayInputChange prev ''services'' val True = Inr (prev\<lparr>services := services prev @ [val]\<rparr>)"
  by (simp add: handleArrayInputChange_def getProp_def)

lemma services_remove:
  "handleArrayInputChange prev ''services'' val False =
     Inr (prev\<lparr>services := filter (\<lambda>item. item \<noteq> val) (services prev)\<rparr>)"
  by (simp add: handleArrayInputChange_def getProp_def)

lemma phoneNumber_onChange_stores:
  "phoneNumber_onChange d v = Inr (d\<lparr>phoneNumber := take 10 (filter isDigit v)\<rparr>)"
  by (simp add: phoneNumber_onChange_def handleInputChange_def)

lemma digits_not_startsWith:
  assumes "\<forall>c \<in> set n. isDigit c"
  shows "\<not> startsWith n (lit ''+977'')"
proof
  assume "startsWith n (lit ''+977'')"
  then have "take (length (lit ''+977'')) n = lit ''+977''"
    by (simp only: startsWith_def)
  then have "0x2B \<in> set (take (length (lit ''+977'')) n)"
    by simp
  then have "0x2B \<in> set n"
    by (rule in_set_takeD)
  with assms have "isDigit 0x2B"
    by blast
  then show False
    by (simp add: isDigit_def)
qed

lemma formattedPhone_entered:
  "formattedPhone (d\<lparr>phoneNumber := take 10 (filter isDigit v)\<rparr>) =
     lit ''+977'' @ take 10 (filter isDigit v)"
proof -
  have "\<forall>c \<in> set (take 10 (filter isDigit v)). isDigit c"
    by (auto dest: in_set_takeD)
  then have "\<not> startsWith (take 10 (filter isDigit v)) (lit ''+977'')"
    by (rule digits_not_startsWith)
  then show ?thesis
    by (simp add: formattedPhone_def)
qed

lemma take_take_append: "take n (take n xs @ ys) = take n (xs @ ys)"
  by (induction xs arbitrary: n) (auto simp add: take_Cons split: nat.splits)

lemma typePhone_from:
  "phoneNumber d = take 10 (filter isDigit pre) \<Longrightarrow>
   typePhone d v = Inr (d\<lparr>phoneNumber := take 10 (filter isDigit (pre @ v))\<rparr>)"
proof (induction v arbitrary: d pre)
  case Nil
  then show ?case by simp
next
  case (Cons c cs)
  have kept: "filter isDigit (take 10 (filter isDigit pre)) = take 10 (filter isDigit pre)"
    by (simp add: filter_id_conv) (auto dest: in_set_takeD)
  have shown: "filter isDigit (phoneNumber d @ [c]) =
               take 10 (filter isDigit pre) @ filter isDigit [c]"
    by (simp only: Cons.prems filter_append kept)
  have whole: "filter isDigit (pre @ [c]) = filter isDigit pre @ filter isDigit [c]"
    by (simp only: filter_append)
  have stored: "take 10 (filter isDigit (phoneNumber d @ [c])) =
                take 10 (filter isDigit (pre @ [c]))"
    by (simp only: shown whole take_take_append)
  have next_draft: "phoneNumber (d\<lparr>phoneNumber := take 10 (filter isDigit (pre @ [c]))\<rparr>) =
                    take 10 (filter isDigit (pre @ [c]))"
    by simp
  have keystroke: "typePhone d (c # cs) =
                   typePhone (d\<lparr>phoneNumber := take 10 (filter isDigit (pre @ [c]))\<rparr>) cs"
    by (simp only: typePhone.simps phoneNumber_onChange_stores stored sum.case)
  have "typePhone d (c # cs) =
          Inr (d\<lparr>phoneNumber := take 10 (filter isDigit (pre @ [c]))\<rparr>
                \<lparr>phoneNumber := take 10 (filter isDigit ((pre @ [c]) @ cs))\<rparr>)"
    by (simp only: keystroke Cons.IH [OF next_draft])
  also have "\<dots> = Inr (d\<lparr>phoneNumber := take 10 (filter isDigit (pre @ c # cs))\<rparr>)"
    by simp
  finally show ?case .
qed

lemma typePhone_empty:
  "phoneNumber d = [] \<Longrightarrow> typePhone d v = Inr (d\<lparr>phoneNumber := take 10 (filter isDigit v)\<rparr>)"
  using typePhone_from [of d "[]" v] by simp

lemma handleSubmit_start_valid:
  "validateForm (formData s) = None \<Longrightarrow>
   handleSubmit_start s =
     (s\<lparr>isLoading := True\<rparr>, [Post ''/api/auth/register'' (apiData (formData s))], True)"
  by (simp add: handleSubmit_start_def)

lemma handleSubmit_start_idle:
  "validateForm d = None \<Longrightarrow>
   handleSubmit_start (idle d) =
     (\<lparr> formData = d, isLoading = True \<rparr>, [Post ''/api/auth/register'' (apiData d)], True)"
  by (simp add: handleSubmit_start_def idle_def)

lemma handleSubmit_start_ignores_isLoading:
  "handleSubmit_start (s\<lparr>isLoading := b\<rparr>) = handleSubmit_start s"
  by (simp add: handleSubmit_start_def split: option.splits)

lemma handleSubmit_start_invalid:
  "validateForm (formData s) = Some msg \<Longrightarrow>
   handleSubmit_start s = (s\<lparr>isLoading := False\<rparr>, [Alert msg], False)"
  by (simp add: handleSubmit_start_def)

lemma handleSubmit_settle_state: "fst (handleSubmit_settle s outcome) = s\<lparr>isLoading := False\<rparr>"
  by (simp add: handleSubmit_settle_def split: transport_outcome.splits)

lemma handleSubmit_settle_no_calls: "networkCalls (snd (handleSubmit_settle s outcome)) = []"
  by (simp add: handleSubmit_settle_def networkCalls_def
        split: transport_outcome.splits option.splits list.splits)

lemma handleSubmit_invalid:
  "validateForm (formData s) = Some msg \<Longrightarrow>
   handleSubmit axiosPost s = (s\<lparr>isLoading := False\<rparr>, [Alert msg])"
  by (simp add: handleSubmit_def handleSubmit_start_invalid)

lemma handleSubmit_valid:
  "validateForm (formData s) = None \<Longrightarrow>
   handleSubmit axiosPost s =
     (s\<lparr>isLoading := False\<rparr>,
      Post ''/api/auth/register'' (apiData (formData s)) #
      snd (handleSubmit_settle s (axiosPost ''/api/auth/register'' (apiData (formData s)))))"
  by (simp add: handleSubmit_def handleSubmit_start_valid handleSubmit_settle_def
        split: transport_outcome.splits)

subsection \<open>One request at a time\<close>

text \<open>
  On a page, a request is in flight exactly while \<open>isLoading\<close> is true: \<open>handleSubmit\<close>
  sets the flag before it posts and clears it when the request settles, and the button
  lets no submit through in between.
\<close>

definition oneRequest :: "Page \<Rightarrow> bool" where
  "oneRequest p = (inFlight p = (if isLoading (page_state p) then 1 else 0))"

lemma oneRequest_newPage: "oneRequest (newPage d)"
  by (simp add: oneRequest_def newPage_def)

lemma oneRequest_step: "oneRequest p \<Longrightarrow> oneRequest (step p e)"
proof (cases e)
  case (Edit d)
  assume "oneRequest p"
  with Edit show ?thesis
    by (simp add: oneRequest_def)
next
  case Submit
  assume inv: "oneRequest p"
  show ?thesis
  proof (cases "isLoading (page_state p)")
    case True
    with Submit inv show ?thesis
      by (simp add: Button_submits_def)
  next
    case False
    with Submit inv show ?thesis
      by (cases "validateForm (formData (page_state p))")
         (simp_all add: oneRequest_def Button_submits_def handleSubmit_start_valid
            handleSubmit_start_invalid)
  qed
next
  case (Settle outcome)
  assume inv: "oneRequest p"
  obtain s1 effs where eq: "handleSubmit_settle (page_state p) outcome = (s1, effs)"
    by (cases "handleSubmit_settle (page_state p) outcome")
  then have "s1 = (page_state p)\<lparr>isLoading := False\<rparr>"
    using handleSubmit_settle_state [of "page_state p" outcome] by simp
  with Settle inv eq show ?thesis
    by (simp add: oneRequest_def split: if_splits)
qed

lemma oneRequest_run: "oneRequest p \<Longrightarrow> oneRequest (run p evs)"
  unfolding run_def
  by (induction evs arbitrary: p) (simp_all add: oneRequest_step)

subsection \<open>Case conversion of ASCII text\<close>

lemma toUpperCase_ascii:
  assumes "\<forall>c \<in> set x. c < 0x80"
  shows "length (toUpperCase U x) = length x"
    and "i < length x \<Longrightarrow>
         toUpperCase U x ! i = (if 0x61 \<le> x ! i \<and> x ! i \<le> 0x7A then x ! i - 0x20 else x ! i)"
  using assms by (simp_all add: toUpperCase_def list_all_iff isLower_def)

lemma toLowerCase_ascii:
  assumes "\<forall>c \<in> set x. c < 0x80"
  shows "length (toLowerCase L x) = length x"
    and "i < length x \<Longrightarrow>
         toLowerCase L x ! i = (if 0x41 \<le> x ! i \<and> x ! i \<le> 0x5A then x ! i + 0x20 else x ! i)"
  using assms by (simp_all add: toLowerCase_def list_all_iff isUpper_def)

lemma toUpperCase_roles:
  "toUpperCase U (lit ''admin'') = lit ''ADMIN''"
  "toUpperCase U (lit ''vendor'') = lit ''VENDOR''"
  "toUpperCase U (lit ''center'') = lit ''CENTER''"
  by (simp_all add: toUpperCase_def isLower_def)

lemma toLowerCase_roles:
  "toLowerCase L (lit ''ADMIN'') = lit ''admin''"
  "toLowerCase L (lit ''VENDOR'') = lit ''vendor''"
  "toLowerCase L (lit ''CENTER'') = lit ''center''"
  by (simp_all add: toLowerCase_def isUpper_def)

lemma toLowerCase_empty: "toLowerCase L [] = []"
  by (simp add: toLowerCase_def)

section \<open>Array fields\<close>

text \<open>
  C1. The claim: for every draft, \<open>setArrayField\<close> with the dotted path
  \<open>"operationalDetails.workingDays"\<close> and a weekday updates the \<open>workingDays\<close> array
  inside \<open>operationalDetails\<close>, as it updates \<open>services\<close>.
  The code does not: the handler uses the path as one property name. No draft has a
  property of that name, so \<open>prev[field]\<close> is \<open>undefined\<close> and both branches raise a
  \<open>TypeError\<close>, for every draft, value and \<open>checked\<close>; no next draft is produced and
  \<open>workingDays\<close> is never changed.
\<close>

theorem workingDays_path_throws:
  "handleArrayInputChange prev ''operationalDetails.workingDays'' val checked = Inl TypeError"
  by (simp add: handleArrayInputChange_def getProp_def)

text \<open>
  C3, as claimed: adding the same value twice in a row leaves exactly one occurrence.
  On the initial draft, adding \<open>"Packaging"\<close> to \<open>services\<close> twice leaves it twice.
\<close>

theorem add_twice_counterexample:
  "addTwice initialFormData ''services'' (lit ''Packaging'') =
     Inr (initialFormData\<lparr>services := [lit ''Storage'', lit ''Distribution'', lit ''Packaging'',
                                        lit ''Packaging'']\<rparr>)"
  by (simp add: addTwice_def services_add initialFormData_def)

text \<open>
  C3, amended. For every draft and value \<open>v\<close>, \<open>handleArrayInputChange("services", v, true)\<close>
  appends \<open>v\<close> to \<open>services\<close> without looking for it: two adds in a row append \<open>v\<close> twice,
  so the array holds two more occurrences of \<open>v\<close> than before, and one add on an array
  that does not hold \<open>v\<close> leaves exactly one occurrence. All other fields are unchanged.
\<close>

theorem services_add_appends:
  "addTwice d ''services'' v = Inr (d\<lparr>services := services d @ [v, v]\<rparr>) \<and>
   count_list (services d @ [v, v]) v = count_list (services d) v + 2 \<and>
   handleArrayInputChange d ''services'' v True = Inr (d\<lparr>services := services d @ [v]\<rparr>) \<and>
   (v \<notin> set (services d) \<longrightarrow> count_list (services d @ [v]) v = 1)"
  by (simp add: addTwice_def services_add count_list_0_iff)

theorem services_add_appends_witness:
  "lit ''Packaging'' \<notin> set (services initialFormData) \<and>
   count_list (services initialFormData @ [lit ''Packaging'']) (lit ''Packaging'') = 1 \<and>
   addTwice initialFormData ''services'' (lit ''Packaging'') =
     Inr (initialFormData\<lparr>services := services initialFormData @
                                        [lit ''Packaging'', lit ''Packaging'']\<rparr>)"
  using services_add_appends [of initialFormData "lit ''Packaging''"]
  by (simp add: initialFormData_def)

section \<open>Validation\<close>

text \<open>
  C2. The claim: the third rule is "the password contains a lowercase letter, an
  uppercase letter and a digit"; the message of the first failing rule is returned, and
  success when all six rules pass.
  The code does not, for a password with a line separator: the pattern's \<open>.*\<close> stops
  there. Entering \<open>Abcdef\<close>, U+2028, \<open>1\<close> in both password fields of the initial draft
  (the password inputs store the text as it is) gives a draft that passes all six rules
  as worded, and \<open>validateForm\<close> returns the complexity message, which says of a
  password that holds all three classes that it must hold them.
\<close>

theorem validateForm_line_separator:
  "handleInputChange initialFormData ''password'' separatorPassword =
     Inr (initialFormData\<lparr>password := separatorPassword\<rparr>) \<and>
   handleInputChange (initialFormData\<lparr>password := separatorPassword\<rparr>) ''confirmPassword''
       separatorPassword = Inr separatorDraft \<and>
   password separatorDraft = confirmPassword separatorDraft \<and>
   length (password separatorDraft) = 8 \<and>
   list_ex (\<lambda>c. 0x61 \<le> c \<and> c \<le> 0x7A) (password separatorDraft) \<and>
   list_ex (\<lambda>c. 0x41 \<le> c \<and> c \<le> 0x5A) (password separatorDraft) \<and>
   list_ex (\<lambda>c. 0x30 \<le> c \<and> c \<le> 0x39) (password separatorDraft) \<and>
   capacity (operationalDetails separatorDraft) = 100 \<and>
   length (workingDays (operationalDetails separatorDraft)) = 5 \<and>
   length (services separatorDraft) = 2 \<and>
   validate_spec separatorDraft = None \<and>
   validateForm separatorDraft =
     Some (lit ''Password must contain at least one uppercase letter, one lowercase letter, and one number'')"
  by (simp add: separatorDraft_def separatorPassword_def initialFormData_def handleInputChange_def
        validateForm_def validate_spec_def passwordRegex_test_def dotStar_def char_defs)

section \<open>Submission\<close>

text \<open>
  C7. For every draft that fails validation, a submission shows the one violation
  message, makes no network call (the alert is the only effect), leaves the draft as it
  is and ends with \<open>isLoading\<close> false. A draft that passes the three password rules and
  has a capacity below 1 gets "Capacity must be at least 1".
\<close>

theorem invalid_draft_not_submitted:
  "(validateForm (formData s) = Some msg \<longrightarrow>
      handleSubmit axiosPost s = (s\<lparr>isLoading := False\<rparr>, [Alert msg])) \<and>
   (password d = confirmPassword d \<and> 6 \<le> length (password d) \<and> passwordRegex_test (password d) \<and>
    capacity (operationalDetails d) < 1 \<longrightarrow>
      validateForm d = Some (lit ''Capacity must be at least 1''))"
  by (auto simp add: handleSubmit_invalid validateForm_def)

theorem invalid_draft_not_submitted_witness:
  "validateForm (formData (idle zeroCapacityDraft)) = Some (lit ''Capacity must be at least 1'') \<and>
   handleSubmit (\<lambda>url body. Resolved emailTaken) (idle zeroCapacityDraft) =
     (idle zeroCapacityDraft, [Alert (lit ''Capacity must be at least 1'')]) \<and>
   password zeroCapacityDraft = confirmPassword zeroCapacityDraft \<and>
   6 \<le> length (password zeroCapacityDraft) \<and>
   passwordRegex_test (password zeroCapacityDraft) \<and>
   capacity (operationalDetails zeroCapacityDraft) = 0"
  using invalid_draft_not_submitted
          [where s = "idle zeroCapacityDraft" and msg = "lit ''Capacity must be at least 1''"
             and axiosPost = "\<lambda>url body. Resolved emailTaken" and d = zeroCapacityDraft]
  by (simp add: idle_def zeroCapacityDraft_def validDraft_def initialFormData_def
        passwordRegex_test_def dotStar_def char_defs)

text \<open>
  C6, as claimed: the transmitted phone is the entered text when that starts with
  \<open>"+977"\<close>, so \<open>"+9779812345678"\<close> is transmitted unchanged. The phone input keeps the
  digits of the entered text only and cuts them to ten: entered in one piece or typed
  key by key into the empty field of a valid draft, \<open>"+9779812345678"\<close> is stored as
  \<open>"9779812345"\<close> and transmitted as \<open>"+9779779812345"\<close>.
\<close>

theorem phone_entered_counterexample:
  "phoneNumber_onChange validDraft (lit ''+9779812345678'') =
     Inr (validDraft\<lparr>phoneNumber := lit ''9779812345''\<rparr>) \<and>
   typePhone validDraft (lit ''+9779812345678'') =
     Inr (validDraft\<lparr>phoneNumber := lit ''9779812345''\<rparr>) \<and>
   handleSubmit_start (idle (validDraft\<lparr>phoneNumber := lit ''9779812345''\<rparr>)) =
     (\<lparr> formData = validDraft\<lparr>phoneNumber := lit ''9779812345''\<rparr>, isLoading = True \<rparr>,
      [Post ''/api/auth/register'' (apiData (validDraft\<lparr>phoneNumber := lit ''9779812345''\<rparr>))],
      True) \<and>
   map_of (apiData (validDraft\<lparr>phoneNumber := lit ''9779812345''\<rparr>)) ''phone'' =
     Some (JString (lit ''+9779779812345'')) \<and>
   lit ''+9779779812345'' \<noteq> lit ''+9779812345678''"
proof -
  have empty: "phoneNumber validDraft = []"
    by (simp add: validDraft_def initialFormData_def)
  have digits: "take 10 (filter isDigit (lit ''+9779812345678'')) = lit ''9779812345''"
    by (simp add: isDigit_def)
  have stored: "phoneNumber_onChange validDraft (lit ''+9779812345678'') =
                  Inr (validDraft\<lparr>phoneNumber := lit ''9779812345''\<rparr>)"
    by (simp only: phoneNumber_onChange_stores digits)
  have typed: "typePhone validDraft (lit ''+9779812345678'') =
                 Inr (validDraft\<lparr>phoneNumber := lit ''9779812345''\<rparr>)"
    by (simp only: typePhone_empty [OF empty] digits)
  have valid: "validateForm (validDraft\<lparr>phoneNumber := lit ''9779812345''\<rparr>) = None"
    by (simp only: validateForm_phoneNumber validateForm_validDraft)
  have posted: "handleSubmit_start (idle (validDraft\<lparr>phoneNumber := lit ''9779812345''\<rparr>)) =
     (\<lparr> formData = validDraft\<lparr>phoneNumber := lit ''9779812345''\<rparr>, isLoading = True \<rparr>,
      [Post ''/api/auth/register'' (apiData (validDraft\<lparr>phoneNumber := lit ''9779812345''\<rparr>))],
      True)"
    by (rule handleSubmit_start_idle [OF valid])
  have phone: "map_of (apiData (validDraft\<lparr>phoneNumber := lit ''9779812345''\<rparr>)) ''phone'' =
                 Some (JString (lit ''+9779779812345''))"
    by (simp add: apiData_def formattedPhone_def startsWith_def)
  have differ: "lit ''+9779779812345'' \<noteq> lit ''+9779812345678''"
    by simp
  from stored typed posted phone differ show ?thesis
    by blast
qed

text \<open>
  C6, amended. For every text entered in the phone field, the stored phone number is
  the ASCII digits of the text, cut to the first ten (the same whether the text arrives
  in one piece or is typed key by key into the empty field), and the transmitted phone
  field is \<open>"+977"\<close> followed by the stored number: input \<open>"9812345678"\<close> is transmitted as
  \<open>"+9779812345678"\<close>, and input \<open>"+9779812345678"\<close> as \<open>"+9779779812345"\<close>.
  \<open>handleSubmit\<close> would keep a stored number that starts with \<open>"+977"\<close> as it is; the
  input never stores one.
\<close>

theorem phone_entered:
  "phoneNumber_onChange d v =
     Inr (d\<lparr>phoneNumber := take 10 (filter (\<lambda>c. 0x30 \<le> c \<and> c \<le> 0x39) v)\<rparr>) \<and>
   (phoneNumber d = [] \<longrightarrow> typePhone d v = phoneNumber_onChange d v) \<and>
   map_of (apiData (d\<lparr>phoneNumber := take 10 (filter (\<lambda>c. 0x30 \<le> c \<and> c \<le> 0x39) v)\<rparr>)) ''phone'' =
     Some (JString (lit ''+977'' @ take 10 (filter (\<lambda>c. 0x30 \<le> c \<and> c \<le> 0x39) v))) \<and>
   (validateForm d = None \<longrightarrow>
      fst (snd (handleSubmit_start
                 (idle (d\<lparr>phoneNumber := take 10 (filter (\<lambda>c. 0x30 \<le> c \<and> c \<le> 0x39) v)\<rparr>)))) =
        [Post ''/api/auth/register''
           (apiData (d\<lparr>phoneNumber := take 10 (filter (\<lambda>c. 0x30 \<le> c \<and> c \<le> 0x39) v)\<rparr>))]) \<and>
   map_of (apiData d) ''phone'' =
     Some (JString (if take 4 (phoneNumber d) = lit ''+977'' then phoneNumber d
                    else lit ''+977'' @ phoneNumber d))"
proof -
  have digit: "(\<lambda>c. 0x30 \<le> c \<and> c \<le> 0x39) = isDigit"
    by (rule ext) (simp add: isDigit_def)
  have stored: "phoneNumber_onChange d v = Inr (d\<lparr>phoneNumber := take 10 (filter isDigit v)\<rparr>)"
    by (rule phoneNumber_onChange_stores)
  have typed: "typePhone d v = phoneNumber_onChange d v" if "phoneNumber d = []"
    by (simp only: typePhone_empty [OF that] stored)
  have phone: "map_of (apiData (d\<lparr>phoneNumber := take 10 (filter isDigit v)\<rparr>)) ''phone'' =
                 Some (JString (lit ''+977'' @ take 10 (filter isDigit v)))"
    by (simp add: apiData_def formattedPhone_entered)
  have posted: "fst (snd (handleSubmit_start (idle (d\<lparr>phoneNumber := take 10 (filter isDigit v)\<rparr>)))) =
        [Post ''/api/auth/register'' (apiData (d\<lparr>phoneNumber := take 10 (filter isDigit v)\<rparr>))]"
    if "validateForm d = None"
  proof -
    from that have "validateForm (d\<lparr>phoneNumber := take 10 (filter isDigit v)\<rparr>) = None"
      by (simp only: validateForm_phoneNumber)
    then show ?thesis
      by (simp only: handleSubmit_start_idle fst_conv snd_conv)
  qed
  have handler: "map_of (apiData d) ''phone'' =
     Some (JString (if take 4 (phoneNumber d) = lit ''+977'' then phoneNumber d
                    else lit ''+977'' @ phoneNumber d))"
    by (simp add: apiData_def formattedPhone_def startsWith_def eval_nat_numeral)
  from stored typed phone posted handler show ?thesis
    unfolding digit by blast
qed

theorem phone_entered_witness:
  "validateForm validDraft = None \<and> phoneNumber validDraft = [] \<and>
   typePhone validDraft (lit ''9812345678'') =
     Inr (validDraft\<lparr>phoneNumber := lit ''9812345678''\<rparr>) \<and>
   fst (snd (handleSubmit_start (idle (validDraft\<lparr>phoneNumber := lit ''9812345678''\<rparr>)))) =
     [Post ''/api/auth/register'' (apiData (validDraft\<lparr>phoneNumber := lit ''9812345678''\<rparr>))] \<and>
   map_of (apiData (validDraft\<lparr>phoneNumber := lit ''9812345678''\<rparr>)) ''phone'' =
     Some (JString (lit ''+9779812345678''))"
  using phone_entered [of validDraft "lit ''9812345678''"]
  by (simp add: validateForm_validDraft) (simp add: validDraft_def initialFormData_def)

text \<open>
  C8. For every draft, the request body has exactly the properties \<open>name\<close> (the contact
  person's name), \<open>email\<close>, \<open>password\<close>, \<open>phone\<close>, \<open>role\<close> (the literal \<open>"CENTER"\<close>),
  \<open>centerName\<close>, \<open>address\<close>, \<open>region\<close>, \<open>operationalDetails\<close> and \<open>services\<close>, each
  with the value of its draft field. It has no \<open>documents\<close> and no \<open>confirmPassword\<close>
  property and does not depend on either field, so staging files changes nothing that is
  sent; the one network call of a submission carries this body, and a draft that fails
  validation makes none.
\<close>

theorem payload_fields:
  "map fst (apiData d) =
     [''name'', ''email'', ''password'', ''phone'', ''role'', ''centerName'', ''address'', ''region'',
      ''operationalDetails'', ''services''] \<and>
   map_of (apiData d) ''name'' = Some (JString (contactPersonName d)) \<and>
   map_of (apiData d) ''email'' = Some (JString (email d)) \<and>
   map_of (apiData d) ''password'' = Some (JString (password d)) \<and>
   map_of (apiData d) ''phone'' =
     Some (JString (if take 4 (phoneNumber d) = lit ''+977'' then phoneNumber d
                    else lit ''+977'' @ phoneNumber d)) \<and>
   map_of (apiData d) ''role'' = Some (JString (lit ''CENTER'')) \<and>
   map_of (apiData d) ''centerName'' = Some (JString (centerName d)) \<and>
   map_of (apiData d) ''address'' = Some (JAddress (address d)) \<and>
   map_of (apiData d) ''region'' = Some (JString (region d)) \<and>
   map_of (apiData d) ''operationalDetails'' = Some (JOperationalDetails (operationalDetails d)) \<and>
   map_of (apiData d) ''services'' = Some (JStringArray (services d)) \<and>
   map_of (apiData d) ''documents'' = None \<and>
   map_of (apiData d) ''confirmPassword'' = None \<and>
   apiData (d\<lparr>documents := files, confirmPassword := c\<rparr>) = apiData d \<and>
   apiData (handleDocumentUpload d files) = apiData d \<and>
   networkCalls (snd (handleSubmit axiosPost s)) =
     (if validateForm (formData s) = None then [Post ''/api/auth/register'' (apiData (formData s))]
      else [])"
proof -
  have keys: "map fst (apiData d) =
     [''name'', ''email'', ''password'', ''phone'', ''role'', ''centerName'', ''address'', ''region'',
      ''operationalDetails'', ''services'']"
    by (simp add: apiData_def)
  have strings: "map_of (apiData d) ''name'' = Some (JString (contactPersonName d))"
      "map_of (apiData d) ''email'' = Some (JString (email d))"
      "map_of (apiData d) ''password'' = Some (JString (password d))"
      "map_of (apiData d) ''role'' = Some (JString (lit ''CENTER''))"
      "map_of (apiData d) ''centerName'' = Some (JString (centerName d))"
      "map_of (apiData d) ''region'' = Some (JString (region d))"
    by (simp_all add: apiData_def)
  have phone: "map_of (apiData d) ''phone'' =
     Some (JString (if take 4 (phoneNumber d) = lit ''+977'' then phoneNumber d
                    else lit ''+977'' @ phoneNumber d))"
    by (simp add: apiData_def formattedPhone_def startsWith_def eval_nat_numeral)
  have nested: "map_of (apiData d) ''address'' = Some (JAddress (address d))"
      "map_of (apiData d) ''operationalDetails'' = Some (JOperationalDetails (operationalDetails d))"
      "map_of (apiData d) ''services'' = Some (JStringArray (services d))"
    by (simp_all add: apiData_def)
  have absent: "map_of (apiData d) ''documents'' = None"
      "map_of (apiData d) ''confirmPassword'' = None"
    by (simp_all add: apiData_def)
  have indep: "apiData (d\<lparr>documents := files, confirmPassword := c\<rparr>) = apiData d"
      "apiData (handleDocumentUpload d files) = apiData d"
    by (simp_all add: apiData_def formattedPhone_def handleDocumentUpload_def)
  have calls: "networkCalls (snd (handleSubmit axiosPost s)) =
     (if validateForm (formData s) = None then [Post ''/api/auth/register'' (apiData (formData s))]
      else [])"
  proof (cases "validateForm (formData s)")
    case None
    have "networkCalls (snd (handleSubmit axiosPost s)) =
            Post ''/api/auth/register'' (apiData (formData s)) #
            networkCalls (snd (handleSubmit_settle s
              (axiosPost ''/api/auth/register'' (apiData (formData s)))))"
      by (simp add: handleSubmit_valid [OF None] networkCalls_def)
    with None show ?thesis
      by (simp add: handleSubmit_settle_no_calls)
  next
    case (Some msg)
    then show ?thesis
      by (simp add: handleSubmit_invalid networkCalls_def)
  qed
  from keys strings phone nested absent indep calls show ?thesis
    by blast
qed

text \<open>
  C4, as claimed: when the backend rejects a valid draft with the error list
  \<open>[{field: "email", message: "already registered"}]\<close>, the displayed message is exactly
  \<open>"email: already registered"\<close>. The code puts the line \<open>"Validation errors:"\<close> before
  the pairs when the rejection arrives as a failed request, and shows the fallback text
  when the same body arrives in a resolved response.
\<close>

theorem structured_rejection_counterexample:
  "snd (handleSubmit (\<lambda>url body. Rejected (Some emailTaken)) (idle validDraft)) =
     [Post ''/api/auth/register'' (apiData validDraft),
      Alert (lit ''Validation errors:'' @ [0x0A] @ lit ''email: already registered'')] \<and>
   lit ''Validation errors:'' @ [0x0A] @ lit ''email: already registered'' \<noteq>
     lit ''email: already registered'' \<and>
   snd (handleSubmit (\<lambda>url body. Resolved emailTaken) (idle validDraft)) =
     [Post ''/api/auth/register'' (apiData validDraft),
      Alert (lit ''Failed to submit application. Please try again.'')]"
  by (simp add: handleSubmit_valid validateForm_validDraft idle_def handleSubmit_settle_def
        emailTaken_def)

text \<open>
  C4, amended. For every valid draft whose request fails with a response body that
  carries a non-empty per-field error list, the displayed message is the line
  \<open>"Validation errors:"\<close> followed by the newline-joined \<open>"field: message"\<close> pairs (for the
  single error above: \<open>"Validation errors:\nemail: already registered"\<close>). When the
  rejection arrives in a resolved response whose \<open>success\<close> is false, the displayed
  message is the body's \<open>message\<close>, or the fallback text when there is none. In both cases
  \<open>isLoading\<close> ends false and the draft is unchanged.
\<close>

theorem structured_rejection_message:
  "(validateForm (formData s) = None \<and> errors r = Some errs \<and> errs \<noteq> [] \<longrightarrow>
      handleSubmit (\<lambda>url body. Rejected (Some r)) s =
        (s\<lparr>isLoading := False\<rparr>,
         [Post ''/api/auth/register'' (apiData (formData s)),
          Alert (lit ''Validation errors:'' @ [0x0A] @
                 join [0x0A] (map (\<lambda>err. err_field err @ lit '': '' @ err_message err) errs))])) \<and>
   (validateForm (formData s) = None \<and> \<not> success r \<longrightarrow>
      handleSubmit (\<lambda>url body. Resolved r) s =
        (s\<lparr>isLoading := False\<rparr>,
         [Post ''/api/auth/register'' (apiData (formData s)),
          Alert (orElse (message r) (lit ''Failed to submit application. Please try again.''))]))"
  by (cases errs) (simp_all add: handleSubmit_valid handleSubmit_settle_def)

theorem structured_rejection_message_witness:
  "validateForm (formData (idle validDraft)) = None \<and>
   errors emailTaken = Some [FieldError (lit ''email'') (lit ''already registered'')] \<and>
   \<not> success emailTaken \<and>
   handleSubmit (\<lambda>url body. Rejected (Some emailTaken)) (idle validDraft) =
     (idle validDraft,
      [Post ''/api/auth/register'' (apiData validDraft),
       Alert (lit ''Validation errors:'' @ [0x0A] @ lit ''email: already registered'')]) \<and>
   handleSubmit (\<lambda>url body. Resolved emailTaken) (idle validDraft) =
     (idle validDraft,
      [Post ''/api/auth/register'' (apiData validDraft),
       Alert (lit ''Failed to submit application. Please try again.'')])"
  using structured_rejection_message
          [of "idle validDraft" emailTaken "[FieldError (lit ''email'') (lit ''already registered'')]"]
  by (simp add: validateForm_validDraft idle_def emailTaken_def)

text \<open>
  C5. On a page, after any sequence of edits, submit attempts and settlings, at most
  one request is in flight, and it is in flight exactly while \<open>isLoading\<close> is true. While
  it is, a further submit attempt changes nothing: no network call, no alert, no change
  of state. Nothing is queued: the settling of a request makes no network call either.
  The part of the submit button in this is modelled from the specification; the part of
  \<open>handleSubmit\<close>, which sets \<open>isLoading\<close> before it posts and clears it when the request
  settles, is the code's.
\<close>

theorem one_submission_in_flight:
  "inFlight (run (newPage d) evs) \<le> 1 \<and>
   isLoading (page_state (run (newPage d) evs)) = (inFlight (run (newPage d) evs) = 1) \<and>
   (inFlight (run (newPage d) evs) \<noteq> 0 \<longrightarrow>
      step (run (newPage d) evs) Submit = run (newPage d) evs) \<and>
   networkCalls (trace (step (run (newPage d) evs) (Settle outcome))) =
     networkCalls (trace (run (newPage d) evs))"
proof -
  define p where "p = run (newPage d) evs"
  have inv: "oneRequest p"
    unfolding p_def by (rule oneRequest_run) (rule oneRequest_newPage)
  then have most: "inFlight p \<le> 1" and flag: "isLoading (page_state p) = (inFlight p = 1)"
    by (simp_all add: oneRequest_def split: if_splits)
  have dropped: "step p Submit = p" if "inFlight p \<noteq> 0"
    using that inv by (simp add: oneRequest_def Button_submits_def split: if_splits)
  have settle: "networkCalls (trace (step p (Settle outcome))) = networkCalls (trace p)"
  proof (cases "inFlight p = 0")
    case True
    then show ?thesis by simp
  next
    case False
    obtain s1 effs where eq: "handleSubmit_settle (page_state p) outcome = (s1, effs)"
      by (cases "handleSubmit_settle (page_state p) outcome")
    then have "networkCalls effs = []"
      using handleSubmit_settle_no_calls [of "page_state p" outcome] by simp
    with False eq show ?thesis
      by (simp add: networkCalls_def)
  qed
  from most flag dropped settle show ?thesis
    unfolding p_def by blast
qed

theorem one_submission_in_flight_witness:
  "inFlight (run (newPage validDraft) [Submit]) \<noteq> 0 \<and>
   isLoading (page_state (run (newPage validDraft) [Submit])) \<and>
   step (run (newPage validDraft) [Submit]) Submit = run (newPage validDraft) [Submit] \<and>
   networkCalls (trace (run (newPage validDraft) [Submit, Submit])) =
     [Post ''/api/auth/register'' (apiData validDraft)] \<and>
   networkCalls (trace (run (newPage validDraft) [Submit, Submit, Settle (Rejected None), Submit])) =
     [Post ''/api/auth/register'' (apiData validDraft),
      Post ''/api/auth/register'' (apiData validDraft)]"
  using one_submission_in_flight [of validDraft "[Submit]"]
  by (simp add: run_def newPage_def Button_submits_def handleSubmit_start_valid
        handleSubmit_settle_def validateForm_validDraft networkCalls_def)

section \<open>Login\<close>

text \<open>
  C9. For every login attempt with no role selected, the error
  \<open>"Please select your role"\<close> is set, no network call is made (the handler returns with
  no effect), and the email and password (and every other state variable) are unchanged.
\<close>

theorem no_role_no_login:
  "selectedRole s = [] \<longrightarrow>
     handleLogin_start unicodeUpper s = (s\<lparr>error := lit ''Please select your role''\<rparr>, [], False)"
  by (simp add: handleLogin_start_def)

theorem no_role_no_login_witness:
  "selectedRole noRole = [] \<and>
   (handleLogin_start (\<lambda>s. s) noRole :: LoginState \<times> unit login_effect list \<times> bool) =
     (\<lparr> login_email = lit ''a@b.np'', login_password = lit ''secret'', selectedRole = [],
        login_isLoading = False, error = lit ''Please select your role'' \<rparr>, [], False)"
  using no_role_no_login [of noRole "\<lambda>s. s"]
  by (simp add: noRole_def)

text \<open>
  C10. For every login attempt with a selected role, the request body carries
  \<open>selectedRole.toUpperCase()\<close>; the three roles the page can select, \<open>admin\<close>, \<open>vendor\<close>
  and \<open>center\<close>, are sent as \<open>ADMIN\<close>, \<open>VENDOR\<close> and \<open>CENTER\<close>. On a successful response
  (status 200 and \<open>success\<close>) that returns a user, the user is handed to \<open>onLogin\<close> with
  \<open>role.toLowerCase()\<close> as its role, together with the token: the response roles
  \<open>ADMIN\<close>, \<open>VENDOR\<close> and \<open>CENTER\<close> are handed off as \<open>admin\<close>, \<open>vendor\<close> and
  \<open>center\<close>. On every text of ASCII code units the conversions keep the length and
  change exactly the letters, whatever the case tables of Unicode are elsewhere.
\<close>

theorem login_role_casing:
  "(selectedRole s \<noteq> [] \<longrightarrow>
      (handleLogin_start U s :: LoginState \<times> 'a login_effect list \<times> bool) =
        (s\<lparr>login_isLoading := True, error := []\<rparr>,
         [LoginPost ''/api/auth/login''
            [(''email'', JString (login_email s)), (''password'', JString (login_password s)),
             (''role'', JString (toUpperCase U (selectedRole s)))]],
         True)) \<and>
   map (toUpperCase U) roleOptions = [lit ''ADMIN'', lit ''VENDOR'', lit ''CENTER''] \<and>
   ((\<forall>c \<in> set x. c < 0x80) \<longrightarrow>
      length (toUpperCase U x) = length x \<and>
      (\<forall>i < length x. toUpperCase U x ! i =
         (if 0x61 \<le> x ! i \<and> x ! i \<le> 0x7A then x ! i - 0x20 else x ! i))) \<and>
   (status (r :: 'a LoginResponse) = 200 \<and> login_success r \<and> login_data r = Some dat \<and>
    user dat = Some u \<longrightarrow>
      handleLogin_settle L s (LoginResolved r) =
        (s\<lparr>login_isLoading := False\<rparr>,
         [OnLogin (Some (u\<lparr>role := toLowerCase L (role u)\<rparr>)) (token dat)])) \<and>
   map (toLowerCase L) [lit ''ADMIN'', lit ''VENDOR'', lit ''CENTER''] = roleOptions \<and>
   ((\<forall>c \<in> set y. c < 0x80) \<longrightarrow>
      length (toLowerCase L y) = length y \<and>
      (\<forall>i < length y. toLowerCase L y ! i =
         (if 0x41 \<le> y ! i \<and> y ! i \<le> 0x5A then y ! i + 0x20 else y ! i)))"
proof -
  have start: "(handleLogin_start U s :: LoginState \<times> 'a login_effect list \<times> bool) =
        (s\<lparr>login_isLoading := True, error := []\<rparr>,
         [LoginPost ''/api/auth/login''
            [(''email'', JString (login_email s)), (''password'', JString (login_password s)),
             (''role'', JString (toUpperCase U (selectedRole s)))]],
         True)"
    if "selectedRole s \<noteq> []"
    using that by (simp add: handleLogin_start_def)
  have upper: "map (toUpperCase U) roleOptions = [lit ''ADMIN'', lit ''VENDOR'', lit ''CENTER'']"
    by (simp only: roleOptions_def list.map toUpperCase_roles)
  have upper_ascii: "length (toUpperCase U x) = length x \<and>
      (\<forall>i < length x. toUpperCase U x ! i =
         (if 0x61 \<le> x ! i \<and> x ! i \<le> 0x7A then x ! i - 0x20 else x ! i))"
    if "\<forall>c \<in> set x. c < 0x80"
    using toUpperCase_ascii [OF that] by blast
  have settle: "handleLogin_settle L s (LoginResolved r) =
        (s\<lparr>login_isLoading := False\<rparr>,
         [OnLogin (Some (u\<lparr>role := toLowerCase L (role u)\<rparr>)) (token dat)])"
    if "status r = 200 \<and> login_success r \<and> login_data r = Some dat \<and> user dat = Some u"
    using that by (simp add: handleLogin_settle_def toLowerCase_empty)
  have lower: "map (toLowerCase L) [lit ''ADMIN'', lit ''VENDOR'', lit ''CENTER''] = roleOptions"
    by (simp only: roleOptions_def list.map toLowerCase_roles)
  have lower_ascii: "length (toLowerCase L y) = length y \<and>
      (\<forall>i < length y. toLowerCase L y ! i =
         (if 0x41 \<le> y ! i \<and> y ! i \<le> 0x5A then y ! i + 0x20 else y ! i))"
    if "\<forall>c \<in> set y. c < 0x80"
    using toLowerCase_ascii [OF that] by blast
  from start upper upper_ascii settle lower lower_ascii show ?thesis
    by blast
qed

theorem login_role_casing_witness:
  "selectedRole adminLogin \<noteq> [] \<and>
   (handleLogin_start (\<lambda>s. s) adminLogin :: LoginState \<times> unit login_effect list \<times> bool) =
     (adminLogin\<lparr>login_isLoading := True, error := []\<rparr>,
      [LoginPost ''/api/auth/login''
         [(''email'', JString (lit ''a@b.np'')), (''password'', JString (lit ''secret'')),
          (''role'', JString (lit ''ADMIN''))]],
      True) \<and>
   status adminResponse = 200 \<and> login_success adminResponse \<and>
   login_data adminResponse = Some adminData \<and>
   user adminData = Some \<lparr> role = lit ''ADMIN'', other = () \<rparr> \<and>
   handleLogin_settle (\<lambda>s. s) adminLogin (LoginResolved adminResponse) =
     (adminLogin\<lparr>login_isLoading := False\<rparr>,
      [OnLogin (Some \<lparr> role = lit ''admin'', other = () \<rparr>) (lit ''t0k3n'')]) \<and>
   length (toUpperCase (\<lambda>s. s) (lit ''a-Z9'')) = 4 \<and>
   toUpperCase (\<lambda>s. s) (lit ''a-Z9'') ! 0 = 0x41 \<and>
   length (toLowerCase (\<lambda>s. s) (lit ''a-Z9'')) = 4 \<and>
   toLowerCase (\<lambda>s. s) (lit ''a-Z9'') ! 2 = 0x7A"
  using login_role_casing
          [where s = adminLogin and r = adminResponse and dat = adminData
             and u = "\<lparr> role = lit ''ADMIN'', other = () \<rparr>" and U = "\<lambda>s. s" and L = "\<lambda>s. s"
             and x = "lit ''a-Z9''" and y = "lit ''a-Z9''"]
  by (simp add: adminLogin_def noRole_def adminResponse_def adminData_def toUpperCase_roles
        toLowerCase_roles toUpperCase_def toLowerCase_def isLower_def isUpper_def)

end
